theory Spec2Isabelle
  imports Main
begin

section \<open>Library functions the source calls\<close>

text \<open>
  The source is TypeScript. It calls lodash (\<open>_.remove\<close>, \<open>_.find\<close>, \<open>_.isEmpty\<close>,
  \<open>_.join\<close>) and the string and array methods \<open>split\<close> and \<open>concat\<close>. Each is modelled
  by what it computes on the arguments the source passes:
  \<^item> \<open>_.remove(array, predicate)\<close> removes, in place, every element the predicate holds
    for and keeps the others in their order;
  \<^item> \<open>_.find(array, predicate)\<close> is the first element the predicate holds for, or
    \<open>undefined\<close>: \<^const>\<open>List.find\<close>, with \<open>None\<close> for \<open>undefined\<close>;
  \<^item> \<open>_.isEmpty\<close> of an array says that its length is 0; of \<open>undefined\<close> it is true,
    and of an object with an own enumerable property (every Style has two) it is false;
  \<^item> \<open>_.join(array, separator)\<close> is \<open>Array.prototype.join\<close>;
  \<^item> \<open>s.split(' ')\<close> cuts at every single space and keeps empty pieces, so that
    \<open>''.split(' ')\<close> is the one-element array \<open>['']\<close>;
  \<^item> \<open>a.concat(b)\<close> is a new array, \<open>a @ b\<close>.
  The result of \<open>split\<close> always has a first piece (lemma \<open>split_not_Nil\<close> below); the
  case of an empty result in its definition is there to make the function total and is
  never taken.
\<close>

definition remove :: "'a list \<Rightarrow> ('a \<Rightarrow> bool) \<Rightarrow> 'a list" where
  "remove array predicate = filter (\<lambda>x. \<not> predicate x) array"

definition isEmpty :: "'a list \<Rightarrow> bool" where
  "isEmpty array = (length array = 0)"

fun join :: "string list \<Rightarrow> string \<Rightarrow> string" where
  "join [] separator = []"
| "join [x] separator = x"
| "join (x # y # ys) separator = x @ separator @ join (y # ys) separator"

fun split :: "string \<Rightarrow> char \<Rightarrow> string list" where
  "split [] separator = [[]]"
| "split (c # cs) separator =
     (if c = separator then [] # split cs separator
      else (case split cs separator of
              [] \<Rightarrow> [[c]]
            | piece # pieces \<Rightarrow> (c # piece) # pieces))"

section \<open>The styling registry: \<open>src/core/styling.registry.ts\<close>\<close>

text \<open>
  \<open>interface Style { name: string; classNames: string[]; }\<close>. The record is
  polymorphic in what stands for the array of class names: the list of its elements
  where only the contents matter, and the address of the array in a store where a claim
  is about sharing it.
\<close>

record 'c Style =
  name :: string
  classNames :: 'c

text \<open>
  The state of \<open>StylingRegistryImpl\<close> is its one field, \<open>styles: Style[]\<close>. Every method
  takes the array and the methods that mutate it return the new one. The constructor
  stores the array it is given (or a new empty one), so every list is a possible state.
\<close>

type_synonym 'c registry = "'c Style list"

text \<open>
  The two overloads of \<open>register\<close> are told apart at run time by
  \<open>typeof style === 'string'\<close>; the argument is a tagged union here.
\<close>

datatype 'c register_args =
  ByName string 'c
| ByStyle "'c Style"

definition deregister :: "'c registry \<Rightarrow> string \<Rightarrow> 'c registry" where
  "deregister styles styleName = remove styles (\<lambda>style. name style = styleName)"

fun register :: "'c registry \<Rightarrow> 'c register_args \<Rightarrow> 'c registry" where
  "register styles (ByName style classNames') =
     deregister styles style @ [\<lparr>name = style, classNames = classNames'\<rparr>]"
| "register styles (ByStyle style) =
     deregister styles (name style) @ [style]"

definition registerMany :: "'c registry \<Rightarrow> 'c Style list \<Rightarrow> 'c registry" where
  "registerMany styles new =
     foldl (\<lambda>acc style. register acc (ByName (name style) (classNames style))) styles new"

definition get :: "string list registry \<Rightarrow> string \<Rightarrow> string list" where
  "get styles styleName =
     (case find (\<lambda>style. name style = styleName) styles of
        Some foundStyle \<Rightarrow> classNames foundStyle
      | None \<Rightarrow> [])"

definition getAsClassName :: "string list registry \<Rightarrow> string \<Rightarrow> string" where
  "getAsClassName styles styleName =
     (let found = get styles styleName
      in if isEmpty found then [] else join found '' '')"

text \<open>The invariant of the registry: at most one Style per name.\<close>

definition unique_names :: "'c registry \<Rightarrow> bool" where
  "unique_names styles = distinct (map name styles)"

section \<open>The slice of the DOM the source uses\<close>

text \<open>
  A value that the source tests against \<open>undefined\<close> and \<open>null\<close>.
\<close>

datatype 'a nullable = Undefined | Null | Value 'a

text \<open>
  Modelled from the spec: \<open>ControlElement\<close> and its \<open>runtime\<close> (\<open>models/uischema\<close>,
  \<open>core/runtime\<close>) are not among the source files. Section 3 of the specification gives
  the fields used here: the reference path \<open>scope.$ref\<close>, and \<open>runtime\<close> with \<open>visible\<close>,
  \<open>enabled\<close> and \<open>validationErrors\<close>, a sequence of strings or \<open>undefined\<close>. The source
  tests \<open>validationErrors\<close> against both \<open>undefined\<close> and \<open>null\<close>, so both are values of
  the field.
\<close>

record Scope =
  ref :: string

record Runtime =
  visible :: bool
  enabled :: bool
  validationErrors :: "string list nullable"

record ControlElement =
  scope :: Scope
  runtime :: Runtime

text \<open>
  Modelled from the spec: the enumeration \<open>RUNTIME_TYPE\<close> (\<open>core/runtime\<close>) is not among
  the source files. Section 4.2 names its kinds \<open>VALIDATION_ERROR\<close>, \<open>VISIBLE\<close> and
  \<open>ENABLED\<close>; \<open>OTHER\<close> stands for any further kind, which takes the \<open>default\<close> branch.
\<close>

datatype RUNTIME_TYPE = VALIDATION_ERROR | VISIBLE | ENABLED | OTHER

text \<open>
  Values of TypeScript's type \<open>any\<close>: what an input widget holds under a property and
  what the data service stores. A function value is kept as the closure it is: the only
  one the source creates is the arrow function of \<open>createInput\<close>, which closes over
  \<open>controlElement\<close> (and \<open>this\<close>).
\<close>

datatype closure = ForwardChange ControlElement

datatype jsval =
  JUndefined
| JNull
| JBool bool
| JNum int
| JStr string
| JFunction closure

text \<open>
  An HTML element, as far as the source reads and writes one: the \<open>class\<close> attribute
  (\<open>className\<close>; \<open>classList\<close> is a view of the same attribute), \<open>textContent\<close>,
  \<open>hidden\<close>, the attributes set by \<open>setAttribute\<close> and \<open>removeAttribute\<close>, and the
  properties read and written by a computed name, \<open>element[property]\<close>.

  A property of an element need not hold what was written to it. An accessor of the
  element's interface converts the written value (the \<open>value\<close> of an \<open>input\<close> holds a
  string whatever is written; an event handler property such as \<open>onchange\<close> holds a
  function or \<open>null\<close>; a reflected attribute such as \<open>title\<close> holds a string), and a
  property that was never written reads as the interface says (\<open>''\<close> for \<open>value\<close>,
  \<open>null\<close> for \<open>onchange\<close>), or as \<open>undefined\<close> when the element has no such property.
  Which properties an element has depends on the element, so the element carries both:
  \<open>setter element property v\<close> is what the property holds after \<open>v\<close> is written to it,
  and \<open>initial element property\<close> is what it reads as before any write. A write to one
  property leaves the other properties as they are.
\<close>

record Element =
  className :: string
  textContent :: string
  hidden :: bool
  attributes :: "string \<rightharpoonup> string"
  properties :: "string \<rightharpoonup> jsval"
  setter :: "string \<Rightarrow> jsval \<Rightarrow> jsval"
  initial :: "string \<Rightarrow> jsval"

text \<open>
  \<open>document.createElement\<close> for an element without accessors of its own for the
  properties written here: nothing is set, a property holds what is written to it and
  reads as \<open>undefined\<close> before.
\<close>

definition createElement :: Element where
  "createElement =
     \<lparr>className = [], textContent = [], hidden = False,
      attributes = Map.empty, properties = Map.empty,
      setter = (\<lambda>property v. v), initial = (\<lambda>property. JUndefined)\<rparr>"

definition setAttribute :: "Element \<Rightarrow> string \<Rightarrow> string \<Rightarrow> Element" where
  "setAttribute element qualifiedName v =
     element\<lparr>attributes := (attributes element)(qualifiedName \<mapsto> v)\<rparr>"

definition removeAttribute :: "Element \<Rightarrow> string \<Rightarrow> Element" where
  "removeAttribute element qualifiedName =
     element\<lparr>attributes := (attributes element)(qualifiedName := None)\<rparr>"

text \<open>\<open>element[property]\<close>, read and written.\<close>

definition get_property :: "Element \<Rightarrow> string \<Rightarrow> jsval" where
  "get_property element property =
     (case properties element property of
        None \<Rightarrow> initial element property
      | Some v \<Rightarrow> v)"

definition set_property :: "Element \<Rightarrow> string \<Rightarrow> jsval \<Rightarrow> Element" where
  "set_property element property v =
     element\<lparr>properties := (properties element)(property \<mapsto> setter element property v)\<rparr>"

text \<open>
  A text \<open>input\<close> element, for the examples. Its \<open>value\<close> holds a string: the written
  value converted as JavaScript converts to a string, with \<open>null\<close> giving the empty
  string; it reads as the empty string before any write. Its \<open>onchange\<close> holds the
  function written to it, and \<open>null\<close> when what is written is not a function. Its
  \<open>title\<close> reflects an attribute and holds a string. A function converts to its text;
  the text of the arrow function of \<open>createInput\<close> stands for it.
\<close>

fun decimal :: "nat \<Rightarrow> string" where
  "decimal n =
     (if n < 10 then [char_of (48 + n)]
      else decimal (n div 10) @ [char_of (48 + n mod 10)])"

definition ToString :: "jsval \<Rightarrow> string" where
  "ToString v =
     (case v of
        JUndefined \<Rightarrow> ''undefined''
      | JNull \<Rightarrow> ''null''
      | JBool b \<Rightarrow> (if b then ''true'' else ''false'')
      | JNum n \<Rightarrow> (if n < 0 then ''-'' @ decimal (nat (- n)) else decimal (nat n))
      | JStr string \<Rightarrow> string
      | JFunction f \<Rightarrow>
          ''(ev) => { this.dataService.notifyAboutDataChange(controlElement, this.getValue(this.input)); }'')"

definition text_input :: Element where
  "text_input =
     createElement
       \<lparr>setter := (\<lambda>property v.
            if property = ''value'' then (case v of JNull \<Rightarrow> JStr [] | _ \<Rightarrow> JStr (ToString v))
            else if property = ''onchange'' then (case v of JFunction f \<Rightarrow> v | _ \<Rightarrow> JNull)
            else if property = ''title'' then JStr (ToString v)
            else v),
        initial := (\<lambda>property.
            if property = ''value'' then JStr []
            else if property = ''onchange'' then JNull
            else if property = ''title'' then JStr []
            else JUndefined)\<rparr>"

text \<open>
  \<open>classList.toggle(token, force)\<close> is the method of \<open>DOMTokenList\<close>. The DOM standard
  defines it on the token set of the \<open>class\<close> attribute:
  \<^item> the token set is the attribute's value split on ASCII whitespace (tab, line feed,
    form feed, carriage return, space), each token appended to an ordered set, so that
    a repeated token stays at its first place;
  \<^item> \<open>toggle\<close> throws a \<open>SyntaxError\<close> when the token is the empty string and an
    \<open>InvalidCharacterError\<close> when it contains ASCII whitespace;
  \<^item> otherwise, when the token is in the set, it is removed if \<open>force\<close> is false and the
    set is left alone if \<open>force\<close> is true; when it is not in the set, it is appended if
    \<open>force\<close> is true and the set is left alone if \<open>force\<close> is false;
  \<^item> after a removal or an append the attribute is set to the tokens joined by single
    spaces; otherwise it is not written.
  The source always passes \<open>force\<close>.
\<close>

datatype DOMException = SyntaxError | InvalidCharacterError

definition ascii_whitespace :: "char \<Rightarrow> bool" where
  "ascii_whitespace c \<longleftrightarrow>
     c = CHR 0x09 \<or> c = CHR 0x0A \<or> c = CHR 0x0C \<or> c = CHR 0x0D \<or> c = CHR 0x20"

fun split_on_ascii_whitespace :: "string \<Rightarrow> string \<Rightarrow> string list" where
  "split_on_ascii_whitespace token [] = (if token = [] then [] else [token])"
| "split_on_ascii_whitespace token (c # cs) =
     (if ascii_whitespace c
      then (if token = [] then split_on_ascii_whitespace [] cs
            else token # split_on_ascii_whitespace [] cs)
      else split_on_ascii_whitespace (token @ [c]) cs)"

definition ordered_set_append :: "string list \<Rightarrow> string \<Rightarrow> string list" where
  "ordered_set_append tokens token = (if token \<in> set tokens then tokens else tokens @ [token])"

definition ordered_set_parser :: "string \<Rightarrow> string list" where
  "ordered_set_parser input = foldl ordered_set_append [] (split_on_ascii_whitespace [] input)"

definition ordered_set_serializer :: "string list \<Rightarrow> string" where
  "ordered_set_serializer tokens = join tokens '' ''"

definition toggle :: "string \<Rightarrow> string \<Rightarrow> bool \<Rightarrow> DOMException + string" where
  "toggle classAttribute token force =
     (if token = [] then Inl SyntaxError
      else if list_ex ascii_whitespace token then Inl InvalidCharacterError
      else (let tokens = ordered_set_parser classAttribute
            in if token \<in> set tokens
               then (if \<not> force then Inr (ordered_set_serializer (removeAll token tokens))
                     else Inr classAttribute)
               else (if force then Inr (ordered_set_serializer (tokens @ [token]))
                     else Inr classAttribute)))"

text \<open>The tokens that \<open>toggle\<close> accepts.\<close>

definition class_token :: "string \<Rightarrow> bool" where
  "class_token token \<longleftrightarrow> token \<noteq> [] \<and> \<not> list_ex ascii_whitespace token"

text \<open>Whether a class is on an element: \<open>classList.contains\<close>.\<close>

definition has_class :: "Element \<Rightarrow> string \<Rightarrow> bool" where
  "has_class element token \<longleftrightarrow> token \<in> set (ordered_set_parser (className element))"

text \<open>
  \<open>applyStyles(styleName, element)\<close> of the registry. Its results (\<open>''\<close> on the early
  return, nothing otherwise) are never used; the model returns the element.
\<close>

definition applyStyles :: "string list registry \<Rightarrow> string \<Rightarrow> Element \<Rightarrow> Element" where
  "applyStyles styles styleName element =
     (let registeredStyles = get styles styleName
      in if isEmpty registeredStyles then element
         else (let assignedStyles = split (className element) (CHR '' '')
               in element\<lparr>className := join (assignedStyles @ registeredStyles) '' ''\<rparr>))"

section \<open>The styling registry over a store of arrays\<close>

text \<open>
  \<open>get\<close> returns \<open>foundStyle.classNames\<close>: a JavaScript array, that is a reference. Where
  it matters which array that is, an array is an address in a store, a Style holds the
  address of its \<open>classNames\<close>, and \<open>register\<close>, \<open>registerMany\<close> and \<open>deregister\<close> are
  the functions above at the type of addresses: they never look into an array. An
  address comes from \<open>alloc\<close> only, so one outside the store does not occur; \<open>contents\<close>
  reads it as empty. The Style objects themselves stay values: what is claimed about
  sharing is about the array of class names.
\<close>

type_synonym addr = nat

record store =
  arrays :: "addr \<rightharpoonup> string list"
  fresh :: addr

definition empty_store :: store where
  "empty_store = \<lparr>arrays = Map.empty, fresh = 0\<rparr>"

definition alloc :: "store \<Rightarrow> string list \<Rightarrow> addr \<times> store" where
  "alloc h elements =
     (fresh h, h\<lparr>arrays := (arrays h)(fresh h \<mapsto> elements), fresh := Suc (fresh h)\<rparr>)"

definition contents :: "store \<Rightarrow> addr \<Rightarrow> string list" where
  "contents h a = (case arrays h a of None \<Rightarrow> [] | Some elements \<Rightarrow> elements)"

text \<open>What a holder of the array \<open>a\<close> can do to it: any change of its elements.\<close>

definition mutate :: "store \<Rightarrow> addr \<Rightarrow> (string list \<Rightarrow> string list) \<Rightarrow> store" where
  "mutate h a change = h\<lparr>arrays := (arrays h)(a \<mapsto> change (contents h a))\<rparr>"

definition push :: "string \<Rightarrow> string list \<Rightarrow> string list" where
  "push element elements = elements @ [element]"

text \<open>\<open>get\<close>, returning the reference: the stored array, or a new empty one.\<close>

definition get_ref :: "store \<Rightarrow> addr registry \<Rightarrow> string \<Rightarrow> addr \<times> store" where
  "get_ref h styles styleName =
     (case find (\<lambda>style. name style = styleName) styles of
        Some foundStyle \<Rightarrow> (classNames foundStyle, h)
      | None \<Rightarrow> alloc h [])"

text \<open>
  The registry as the methods that only read arrays see it (\<open>get\<close>, \<open>getAsClassName\<close>,
  \<open>applyStyles\<close> above): every address replaced by the elements the store holds there.
\<close>

definition view :: "store \<Rightarrow> addr registry \<Rightarrow> string list registry" where
  "view h styles =
     map (\<lambda>style. \<lparr>name = name style, classNames = contents h (classNames style)\<rparr>) styles"

section \<open>The base control: \<open>src/renderers/controls/base.control.ts\<close>\<close>

text \<open>
  \<open>BaseControl\<close> extends \<open>Renderer\<close>, which is an \<open>HTMLElement\<close>: the field \<open>self\<close> is
  the control as an element, so that \<open>this.classList\<close> and \<open>this.hidden\<close> of the source
  are the class attribute and the \<open>hidden\<close> of \<open>self\<close>.
  The fields \<open>label\<close>, \<open>input\<close> and \<open>errorElement\<close> are declared with element types and
  are written by \<open>render\<close>; the record is the state of a control from then on.
  \<open>JsonForms.stylingRegistry\<close> and \<open>this.dataService\<close> are objects outside the control:
  the functions below take them as arguments.
\<close>

record BaseControl =
  self :: Element
  uischema :: ControlElement
  label :: Element
  input :: Element
  errorElement :: Element

text \<open>
  The abstract members a concrete control supplies, and the two conversions it may
  override (\<open>BaseControl\<close> itself has the identity for both).
\<close>

record ConcreteControl =
  inputChangeProperty :: string
  valueProperty :: string
  createInputElement :: Element
  configureInput :: "Element \<Rightarrow> Element"
  convertModelValue :: "jsval \<Rightarrow> jsval"
  convertInputValue :: "jsval \<Rightarrow> jsval"

text \<open>
  Modelled from the spec: the data service (\<open>core/data.service\<close>) is not among the source
  files. Section 6 gives the two operations the control calls: \<open>getValue(controlElement)\<close>
  and \<open>notifyAboutDataChange(controlElement, newValue)\<close>. The model keeps the value
  \<open>getValue\<close> returns for each element and the calls of \<open>notifyAboutDataChange\<close> in the
  order they were made, each with its two arguments.
\<close>

record DataService =
  currentValue :: "ControlElement \<Rightarrow> jsval"
  notified :: "(ControlElement \<times> jsval) list"

definition DataService_getValue :: "DataService \<Rightarrow> ControlElement \<Rightarrow> jsval" where
  "DataService_getValue dataService controlElement = currentValue dataService controlElement"

definition notifyAboutDataChange :: "DataService \<Rightarrow> ControlElement \<Rightarrow> jsval \<Rightarrow> DataService" where
  "notifyAboutDataChange dataService controlElement newValue =
     dataService\<lparr>notified := notified dataService @ [(controlElement, newValue)]\<rparr>"

definition formatErrorMessage :: "string list nullable \<Rightarrow> string" where
  "formatErrorMessage errors =
     (case errors of
        Undefined \<Rightarrow> []
      | Null \<Rightarrow> []
      | Value strings \<Rightarrow> join strings [CHR 0x0A])"

definition getStyles :: "string list registry \<Rightarrow> string \<Rightarrow> string" where
  "getStyles stylingRegistry styleName = getAsClassName stylingRegistry styleName"

text \<open>
  \<open>runtimeUpdated\<close> returns the exception it ends with, if any, and the control as the
  statements that ran have left it: on \<open>VALIDATION_ERROR\<close> the error text is written
  before \<open>classList.toggle\<close> is called.
\<close>

definition runtimeUpdated ::
  "string list registry \<Rightarrow> RUNTIME_TYPE \<Rightarrow> BaseControl \<Rightarrow> DOMException option \<times> BaseControl" where
  "runtimeUpdated stylingRegistry type this =
     (let runtime' = runtime (uischema this)
      in case type of
           VALIDATION_ERROR \<Rightarrow>
             (let this' = this\<lparr>errorElement := (errorElement this)
                             \<lparr>textContent := formatErrorMessage (validationErrors runtime')\<rparr>\<rparr>
              in case toggle (className (self this'))
                        (getStyles stylingRegistry ''validation.error'')
                        (validationErrors runtime' \<noteq> Undefined) of
                   Inl exception \<Rightarrow> (Some exception, this')
                 | Inr classAttribute \<Rightarrow>
                     (None, this'\<lparr>self := (self this')\<lparr>className := classAttribute\<rparr>\<rparr>))
         | VISIBLE \<Rightarrow> (None, this\<lparr>self := (self this)\<lparr>hidden := \<not> visible runtime'\<rparr>\<rparr>)
         | ENABLED \<Rightarrow>
             (if \<not> enabled runtime'
              then (None, this\<lparr>input := setAttribute (input this) ''disabled'' ''true''\<rparr>)
              else (None, this\<lparr>input := removeAttribute (input this) ''disabled''\<rparr>))
         | OTHER \<Rightarrow> (None, this))"

definition needsNotificationAbout :: "BaseControl \<Rightarrow> ControlElement nullable \<Rightarrow> bool" where
  "needsNotificationAbout this controlElement =
     (case controlElement of
        Undefined \<Rightarrow> False
      | Null \<Rightarrow> False
      | Value element \<Rightarrow> ref (scope (uischema this)) = ref (scope element))"

definition getValue :: "ConcreteControl \<Rightarrow> Element \<Rightarrow> jsval" where
  "getValue sub input' = convertInputValue sub (get_property input' (valueProperty sub))"

definition setValue :: "ConcreteControl \<Rightarrow> Element \<Rightarrow> jsval \<Rightarrow> Element" where
  "setValue sub input' v = set_property input' (valueProperty sub) (convertModelValue sub v)"

definition dataChanged ::
  "ConcreteControl \<Rightarrow> BaseControl \<Rightarrow> ControlElement \<Rightarrow> jsval \<Rightarrow> jsval \<Rightarrow> BaseControl" where
  "dataChanged sub this controlElement newValue data =
     this\<lparr>input := setValue sub (input this) newValue\<rparr>"

text \<open>
  \<open>createInput\<close>: the widget is created and configured, the arrow function is stored
  under the change property, then the value property is written, and the style
  \<open>control.input\<close> is applied (to the label).
\<close>

definition createInput ::
  "ConcreteControl \<Rightarrow> string list registry \<Rightarrow> DataService \<Rightarrow> BaseControl \<Rightarrow> ControlElement
     \<Rightarrow> BaseControl" where
  "createInput sub stylingRegistry dataService this controlElement =
     (let created = configureInput sub (createInputElement sub);
          listening = set_property created (inputChangeProperty sub)
                        (JFunction (ForwardChange controlElement));
          filled = setValue sub listening (DataService_getValue dataService controlElement)
      in this\<lparr>input := filled,
               label := applyStyles stylingRegistry ''control.input'' (label this)\<rparr>)"

text \<open>
  Calling the arrow function of \<open>createInput\<close>: it reads \<open>this.input\<close> when it is
  called and makes the one call of the data service.
\<close>

fun call :: "closure \<Rightarrow> ConcreteControl \<Rightarrow> BaseControl \<Rightarrow> DataService \<Rightarrow> DataService" where
  "call (ForwardChange controlElement) sub this dataService =
     notifyAboutDataChange dataService controlElement (getValue sub (input this))"

text \<open>
  A user edit as a test simulates it: the value under the widget's change property is
  called with an event. When that value is not a function the call is a \<open>TypeError\<close>
  and the data service is not reached.
\<close>

datatype TypeError = TypeError

definition trigger_change ::
  "ConcreteControl \<Rightarrow> BaseControl \<Rightarrow> DataService \<Rightarrow> TypeError + DataService" where
  "trigger_change sub this dataService =
     (case get_property (input this) (inputChangeProperty sub) of
        JFunction handler \<Rightarrow> Inr (call handler sub this dataService)
      | _ \<Rightarrow> Inl TypeError)"

section \<open>Inputs of the examples\<close>

text \<open>The store after \<open>const a = ['bar']\<close>: the array is at address 0.\<close>

definition one_array :: store where
  "one_array = snd (alloc empty_store [''bar''])"

text \<open>
  A rendered control bound to \<open>/firstName\<close>, with the class \<open>control\<close> and the given
  \<open>validationErrors\<close>.
\<close>

definition example_control :: "string list nullable \<Rightarrow> BaseControl" where
  "example_control errors =
     \<lparr>self = createElement\<lparr>className := ''control''\<rparr>,
      uischema = \<lparr>scope = \<lparr>ref = ''/firstName''\<rparr>,
                  runtime = \<lparr>visible = True, enabled = True, validationErrors = errors\<rparr>\<rparr>,
      label = createElement, input = createElement, errorElement = createElement\<rparr>"

text \<open>
  A concrete control for a text input: the handler goes under \<open>onchange\<close>, the value is
  under \<open>value\<close>, and an empty input is converted to \<open>undefined\<close>. The data service
  holds \<open>Ann\<close> and has not been notified yet.
\<close>

definition text_control :: ConcreteControl where
  "text_control =
     \<lparr>inputChangeProperty = ''onchange'', valueProperty = ''value'',
      createInputElement = text_input, configureInput = (\<lambda>input'. input'),
      convertModelValue = (\<lambda>v. v),
      convertInputValue = (\<lambda>v. if v = JStr [] then JUndefined else v)\<rparr>"

text \<open>
  Two controls that are well-formed for the abstract members, which are typed \<open>string\<close>:
  one names \<open>value\<close> for the change property as well as for the value property, the
  other names \<open>title\<close>, which holds strings, for the change property.
\<close>

definition same_property_control :: ConcreteControl where
  "same_property_control = text_control\<lparr>inputChangeProperty := ''value''\<rparr>"

definition title_control :: ConcreteControl where
  "title_control = text_control\<lparr>inputChangeProperty := ''title''\<rparr>"

definition example_service :: DataService where
  "example_service = \<lparr>currentValue = (\<lambda>controlElement. JStr ''Ann''), notified = []\<rparr>"

section \<open>Facts about the library functions\<close>

lemma find_append_styles:
  "find P (xs @ ys) = (case find P xs of None \<Rightarrow> find P ys | Some x \<Rightarrow> Some x)"
  by (induction xs) auto

lemma split_not_Nil: "split s c \<noteq> []"
  by (induction s) (auto split: list.splits)

lemma join_Cons: "ys \<noteq> [] \<Longrightarrow> join (x # ys) sep = x @ sep @ join ys sep"
  by (cases ys) auto

lemma join_append:
  "xs \<noteq> [] \<Longrightarrow> ys \<noteq> [] \<Longrightarrow> join (xs @ ys) sep = join xs sep @ sep @ join ys sep"
  by (induction xs sep rule: join.induct) (auto simp add: join_Cons)

text \<open>Joining the pieces of a string with the separator it was cut at gives it back.\<close>

lemma join_split: "join (split s c) [c] = s"
proof (induction s)
  case Nil
  show ?case by simp
next
  case (Cons a s)
  show ?case
  proof (cases "a = c")
    case True
    with Cons show ?thesis by (simp add: join_Cons split_not_Nil)
  next
    case False
    obtain p ps where s: "split s c = p # ps"
      using split_not_Nil [of s c] by (cases "split s c") auto
    with Cons False show ?thesis by (cases ps) auto
  qed
qed

section \<open>The registry: replacement, uniqueness, removal\<close>

lemma find_deregister: "find (\<lambda>style. name style = n) (deregister styles n) = None"
  by (simp add: deregister_def remove_def find_None_iff)

lemma names_deregister: "n \<notin> name ` set (deregister styles n)"
  by (auto simp add: deregister_def remove_def)

lemma unique_names_deregister: "unique_names styles \<Longrightarrow> unique_names (deregister styles n)"
  by (simp add: unique_names_def deregister_def remove_def distinct_map_filter)

lemma unique_names_register: "unique_names styles \<Longrightarrow> unique_names (register styles args)"
  using names_deregister unique_names_deregister
  by (cases args) (auto simp add: unique_names_def)

lemma unique_names_registerMany:
  "unique_names styles \<Longrightarrow> unique_names (registerMany styles new)"
  unfolding registerMany_def
  by (induction new arbitrary: styles)
     (auto simp add: unique_names_register simp del: register.simps)

text \<open>
  Claim C1. From any state of the registry, \<open>register(N, A)\<close> followed by
  \<open>register(N, B)\<close> leaves \<open>get(N)\<close> returning exactly \<open>B\<close>: the second registration
  replaces the first, nothing of \<open>A\<close> is kept.
\<close>

theorem register_twice_get:
  "get (register (register styles (ByName N A)) (ByName N B)) N = B"
  by (simp add: get_def find_append_styles find_deregister)

text \<open>
  Claim C2. A registry with at most one Style per name still has at most one Style per
  name after \<open>register\<close> (either overload), after \<open>registerMany\<close> and after
  \<open>deregister\<close>.
\<close>

theorem unique_names_preserved:
  assumes "unique_names styles"
  shows "unique_names (register styles (ByName N A)) \<and>
         unique_names (register styles (ByStyle S)) \<and>
         unique_names (registerMany styles new) \<and>
         unique_names (deregister styles M)"
  using assms
  by (simp only: unique_names_register unique_names_registerMany unique_names_deregister)

theorem unique_names_preserved_witness:
  "unique_names [\<lparr>name = ''a'', classNames = [''x'']\<rparr>, \<lparr>name = ''b'', classNames = [''y'']\<rparr>] \<and>
   unique_names (register [\<lparr>name = ''a'', classNames = [''x'']\<rparr>, \<lparr>name = ''b'', classNames = [''y'']\<rparr>]
                   (ByName ''a'' [''z''])) \<and>
   unique_names (register [\<lparr>name = ''a'', classNames = [''x'']\<rparr>, \<lparr>name = ''b'', classNames = [''y'']\<rparr>]
                   (ByStyle \<lparr>name = ''b'', classNames = [''z'']\<rparr>)) \<and>
   unique_names (registerMany [\<lparr>name = ''a'', classNames = [''x'']\<rparr>, \<lparr>name = ''b'', classNames = [''y'']\<rparr>]
                   [\<lparr>name = ''c'', classNames = [''u'']\<rparr>, \<lparr>name = ''a'', classNames = [''v'']\<rparr>,
                    \<lparr>name = ''c'', classNames = [''w'']\<rparr>]) \<and>
   unique_names (deregister [\<lparr>name = ''a'', classNames = [''x'']\<rparr>, \<lparr>name = ''b'', classNames = [''y'']\<rparr>]
                   ''a'')"
proof -
  have u: "unique_names [\<lparr>name = ''a'', classNames = [''x'']\<rparr>, \<lparr>name = ''b'', classNames = [''y'']\<rparr>]"
    by (simp add: unique_names_def)
  show ?thesis
    using u unique_names_preserved [OF u, of "''a''" "[''z'']" "\<lparr>name = ''b'', classNames = [''z'']\<rparr>"
        "[\<lparr>name = ''c'', classNames = [''u'']\<rparr>, \<lparr>name = ''a'', classNames = [''v'']\<rparr>,
          \<lparr>name = ''c'', classNames = [''w'']\<rparr>]" "''a''"]
    by simp
qed

text \<open>
  Claim C8. \<open>deregister(N)\<close> for a name \<open>N\<close> that no Style of the registry has leaves
  the registry exactly as it was. The method has no statement that can throw on an
  array of Styles, so the model has no error result to exclude.
\<close>

theorem deregister_unknown:
  assumes "N \<notin> name ` set styles"
  shows "deregister styles N = styles"
  using assms by (auto simp add: deregister_def remove_def filter_id_conv)

theorem deregister_unknown_witness:
  "''c'' \<notin> name ` set [\<lparr>name = ''a'', classNames = [''x'']\<rparr>, \<lparr>name = ''b'', classNames = [''y'' :: string]\<rparr>] \<and>
   deregister [\<lparr>name = ''a'', classNames = [''x'']\<rparr>, \<lparr>name = ''b'', classNames = [''y'' :: string]\<rparr>] ''c'' =
     [\<lparr>name = ''a'', classNames = [''x'']\<rparr>, \<lparr>name = ''b'', classNames = [''y'']\<rparr>]"
proof -
  have n: "''c'' \<notin> name ` set [\<lparr>name = ''a'', classNames = [''x'']\<rparr>, \<lparr>name = ''b'', classNames = [''y'' :: string]\<rparr>]"
    by simp
  show ?thesis
    using n deregister_unknown [OF n] by simp
qed

section \<open>The registry: applying styles to an element\<close>

lemma applyStyles_registered:
  assumes "get styles N \<noteq> []"
  shows "applyStyles styles N E =
           E\<lparr>className := join (split (className E) (CHR '' '') @ get styles N) '' ''\<rparr>"
    and "join (split (className E) (CHR '' '') @ get styles N) '' '' =
           className E @ '' '' @ join (get styles N) '' ''"
  using assms join_split [of "className E" "CHR '' ''"]
  by (simp_all add: applyStyles_def isEmpty_def Let_def join_append split_not_Nil)

text \<open>
  Claim C5. When \<open>get(N)\<close> is not empty, \<open>applyStyles(N, E)\<close> changes nothing of \<open>E\<close> but
  its class attribute, which becomes the pieces of the old attribute followed by the
  class names registered under \<open>N\<close>, joined by single spaces: the old attribute, a
  space, and the registered names in their registered order. When \<open>get(N)\<close> is empty,
  \<open>E\<close> is left as it was: that is so when no Style is registered under \<open>N\<close>, and also
  when \<open>N\<close> is registered with an empty list of class names, where there is nothing to
  append. The three cases cover every registry, name and element. The example of the
  claim, the class \<open>foo\<close> and the style \<open>['bar', 'baz']\<close> giving \<open>foo bar baz\<close>, is the
  first part of the witness.
\<close>

theorem applyStyles_appends:
  "(get styles N \<noteq> [] \<longrightarrow>
      applyStyles styles N E =
        E\<lparr>className := join (split (className E) (CHR '' '') @ get styles N) '' ''\<rparr> \<and>
      className (applyStyles styles N E) = className E @ '' '' @ join (get styles N) '' '') \<and>
   (get styles N = [] \<longrightarrow> applyStyles styles N E = E) \<and>
   (find (\<lambda>style. name style = N) styles = None \<longrightarrow>
      get styles N = [] \<and> applyStyles styles N E = E)"
  using applyStyles_registered [of styles N E]
  by (simp add: applyStyles_def get_def isEmpty_def)

theorem applyStyles_appends_witness:
  "get [\<lparr>name = ''s'', classNames = [''bar'', ''baz'']\<rparr>, \<lparr>name = ''e'', classNames = []\<rparr>] ''s''
     \<noteq> [] \<and>
   className (applyStyles
      [\<lparr>name = ''s'', classNames = [''bar'', ''baz'']\<rparr>, \<lparr>name = ''e'', classNames = []\<rparr>] ''s''
      (createElement\<lparr>className := ''foo''\<rparr>)) = ''foo bar baz'' \<and>
   get [\<lparr>name = ''s'', classNames = [''bar'', ''baz'']\<rparr>, \<lparr>name = ''e'', classNames = []\<rparr>] ''e''
     = [] \<and>
   applyStyles
      [\<lparr>name = ''s'', classNames = [''bar'', ''baz'']\<rparr>, \<lparr>name = ''e'', classNames = []\<rparr>] ''e''
      (createElement\<lparr>className := ''foo''\<rparr>) = createElement\<lparr>className := ''foo''\<rparr> \<and>
   find (\<lambda>style. name style = ''t'')
      [\<lparr>name = ''s'', classNames = [''bar'', ''baz'']\<rparr>, \<lparr>name = ''e'', classNames = []\<rparr>]
     = None \<and>
   applyStyles
      [\<lparr>name = ''s'', classNames = [''bar'', ''baz'']\<rparr>, \<lparr>name = ''e'', classNames = []\<rparr>] ''t''
      (createElement\<lparr>className := ''foo''\<rparr>) = createElement\<lparr>className := ''foo''\<rparr>"
  using applyStyles_appends [of
      "[\<lparr>name = ''s'', classNames = [''bar'', ''baz'']\<rparr>, \<lparr>name = ''e'', classNames = []\<rparr>]"
      "''s''" "createElement\<lparr>className := ''foo''\<rparr>"]
    applyStyles_appends [of
      "[\<lparr>name = ''s'', classNames = [''bar'', ''baz'']\<rparr>, \<lparr>name = ''e'', classNames = []\<rparr>]"
      "''e''" "createElement\<lparr>className := ''foo''\<rparr>"]
    applyStyles_appends [of
      "[\<lparr>name = ''s'', classNames = [''bar'', ''baz'']\<rparr>, \<lparr>name = ''e'', classNames = []\<rparr>]"
      "''t''" "createElement\<lparr>className := ''foo''\<rparr>"]
  by (simp add: get_def)

text \<open>
  Claim C10. On an element whose class attribute is the empty string, \<open>applyStyles\<close> for
  a name registered with a class list that is not empty gives a class attribute that
  starts with a space, followed by the registered names joined by spaces: the empty
  attribute is cut into one empty piece, which is joined with the rest. With the style
  \<open>['bar', 'baz']\<close> the attribute is \<open>' bar baz'\<close> (the witness).
\<close>

theorem applyStyles_empty_class:
  assumes "className E = []"
    and "find (\<lambda>style. name style = N) styles = Some style"
    and "classNames style \<noteq> []"
  shows "className (applyStyles styles N E) = '' '' @ join (classNames style) '' ''"
  using assms by (simp add: applyStyles_def get_def isEmpty_def join_Cons)

theorem applyStyles_empty_class_witness:
  "className createElement = [] \<and>
   find (\<lambda>style. name style = ''s'') [\<lparr>name = ''s'', classNames = [''bar'', ''baz'']\<rparr>] =
     Some \<lparr>name = ''s'', classNames = [''bar'', ''baz'']\<rparr> \<and>
   [''bar'', ''baz''] \<noteq> ([] :: string list) \<and>
   className (applyStyles [\<lparr>name = ''s'', classNames = [''bar'', ''baz'']\<rparr>] ''s'' createElement) =
     '' bar baz''"
proof -
  have e: "className createElement = []"
    by (simp add: createElement_def)
  have f: "find (\<lambda>style. name style = ''s'') [\<lparr>name = ''s'', classNames = [''bar'', ''baz'']\<rparr>] =
     Some \<lparr>name = ''s'', classNames = [''bar'', ''baz'']\<rparr>"
    by simp
  have n: "classNames \<lparr>name = ''s'', classNames = [''bar'', ''baz'']\<rparr> \<noteq> []"
    by simp
  show ?thesis
    using e f applyStyles_empty_class [OF e f n] by simp
qed

section \<open>The registry: the array that \<open>get\<close> returns\<close>

lemma find_view:
  "find (\<lambda>style. name style = N) (view h styles) =
     map_option (\<lambda>style. \<lparr>name = name style, classNames = contents h (classNames style)\<rparr>)
       (find (\<lambda>style. name style = N) styles)"
  by (induction styles) (auto simp add: view_def)

lemma contents_mutate: "contents (mutate h a change) a = change (contents h a)"
  by (simp add: contents_def mutate_def)

lemma get_view:
  "get (view h styles) N =
    (case find (\<lambda>style. name style = N) styles of
       None \<Rightarrow> []
     | Some style \<Rightarrow> contents h (classNames style))"
  by (simp add: get_def find_view split: option.splits)

text \<open>
  The two models of \<open>get\<close> agree: the elements of the array whose reference it returns
  are the list that \<open>get\<close> gives on the view of the registry.
\<close>

lemma get_ref_contents:
  "contents (snd (get_ref h styles N)) (fst (get_ref h styles N)) = get (view h styles) N"
  by (simp add: get_view get_ref_def alloc_def contents_def split: option.splits)

text \<open>
  After \<open>register(N, a)\<close> and \<open>register(N, b)\<close>, the array \<open>get(N)\<close> returns is \<open>b\<close>
  itself.
\<close>

lemma register_twice_get_ref:
  "get_ref h (register (register styles (ByName N a)) (ByName N b)) N = (b, h)"
  by (simp add: get_ref_def find_append_styles find_deregister)

text \<open>
  Claim C7 says that the sequence \<open>get\<close> returns is never shared with the registry. The
  code returns \<open>foundStyle.classNames\<close> itself. At the store \<open>one_array\<close>, with the array
  at address 0 registered under \<open>x\<close>: \<open>get('x')\<close> returns address 0 and allocates
  nothing; \<open>getAsClassName('x')\<close> is \<open>bar\<close>; after the caller pushes \<open>evil\<close> onto the
  array it was given, \<open>getAsClassName('x')\<close> is \<open>bar evil\<close>.
\<close>

theorem get_shares_array_counterexample:
  "alloc empty_store [''bar''] = (0, one_array) \<and>
   get_ref one_array (register [] (ByName ''x'' 0)) ''x'' = (0, one_array) \<and>
   getAsClassName (view one_array (register [] (ByName ''x'' 0))) ''x'' = ''bar'' \<and>
   getAsClassName (view (mutate one_array 0 (push ''evil'')) (register [] (ByName ''x'' 0))) ''x'' =
     ''bar evil''"
  by (simp add: one_array_def alloc_def empty_store_def get_ref_def deregister_def remove_def
      getAsClassName_def get_view isEmpty_def contents_def mutate_def push_def)

text \<open>
  Claim C7, amended. For a registered name \<open>N\<close>, \<open>get(N)\<close> returns the array that the
  registry holds for \<open>N\<close>, and no new one. Whatever change the caller makes to the
  elements of the returned array, the registry's later operations see the changed
  elements: \<open>get(N)\<close> gives them, \<open>getAsClassName(N)\<close> joins them, \<open>applyStyles(N, E)\<close>
  appends them.
\<close>

theorem get_shares_array:
  assumes "find (\<lambda>style. name style = N) styles = Some style"
  shows "fst (get_ref h styles N) = classNames style \<and>
         snd (get_ref h styles N) = h \<and>
         get (view (mutate h (fst (get_ref h styles N)) change) styles) N =
           change (get (view h styles) N) \<and>
         getAsClassName (view (mutate h (fst (get_ref h styles N)) change) styles) N =
           (if isEmpty (change (get (view h styles) N)) then []
            else join (change (get (view h styles) N)) '' '') \<and>
         applyStyles (view (mutate h (fst (get_ref h styles N)) change) styles) N E =
           (if isEmpty (change (get (view h styles) N)) then E
            else E\<lparr>className :=
                     join (split (className E) (CHR '' '') @ change (get (view h styles) N)) '' ''\<rparr>)"
  using assms
  by (simp add: get_ref_def get_view contents_mutate getAsClassName_def applyStyles_def)

theorem get_shares_array_witness:
  "find (\<lambda>style. name style = ''x'') (register [] (ByName ''x'' 0)) =
     Some \<lparr>name = ''x'', classNames = 0 :: addr\<rparr> \<and>
   fst (get_ref one_array (register [] (ByName ''x'' 0)) ''x'') = 0 \<and>
   get (view (mutate one_array (fst (get_ref one_array (register [] (ByName ''x'' 0)) ''x''))
          (push ''evil'')) (register [] (ByName ''x'' 0))) ''x'' =
     [''bar'', ''evil'']"
proof -
  have f: "find (\<lambda>style. name style = ''x'') (register [] (ByName ''x'' 0)) =
     Some \<lparr>name = ''x'', classNames = 0 :: addr\<rparr>"
    by (simp add: deregister_def remove_def)
  have g: "get (view one_array (register [] (ByName ''x'' 0))) ''x'' = [''bar'']"
    by (simp add: get_view f one_array_def alloc_def empty_store_def contents_def
        del: register.simps)
  note shared = get_shares_array [OF f, of one_array "push ''evil''" createElement]
  have a: "fst (get_ref one_array (register [] (ByName ''x'' 0)) ''x'') = 0"
    using shared [THEN conjunct1] by simp
  have m: "get (view (mutate one_array (fst (get_ref one_array (register [] (ByName ''x'' 0)) ''x''))
          (push ''evil'')) (register [] (ByName ''x'' 0))) ''x'' = push ''evil'' [''bar'']"
    using shared [THEN conjunct2, THEN conjunct2, THEN conjunct1] by (simp only: g)
  show ?thesis
    using f a m by (simp add: push_def del: register.simps)
qed

section \<open>The token set of a class attribute\<close>

lemma split_ws_token:
  "\<not> list_ex ascii_whitespace t \<Longrightarrow>
   split_on_ascii_whitespace token (t @ s) = split_on_ascii_whitespace (token @ t) s"
  by (induction t arbitrary: token) auto

lemma split_ws_space:
  "token \<noteq> [] \<Longrightarrow>
   split_on_ascii_whitespace token (CHR '' '' # s) = token # split_on_ascii_whitespace [] s"
  by (simp add: ascii_whitespace_def)

text \<open>Tokens joined by single spaces are split into the same tokens.\<close>

lemma split_ws_join:
  "list_all class_token ts \<Longrightarrow> split_on_ascii_whitespace [] (join ts '' '') = ts"
proof (induction ts "'' ''" rule: join.induct)
  case 1
  show ?case by simp
next
  case (2 x)
  then show ?case
    using split_ws_token [of x "[]" "[]"] by (simp add: class_token_def)
next
  case (3 x y ys)
  from 3 have x: "x \<noteq> []" "\<not> list_ex ascii_whitespace x"
    and rest: "list_all class_token (y # ys)"
    by (simp_all add: class_token_def)
  have "split_on_ascii_whitespace [] (x @ CHR '' '' # join (y # ys) '' '') =
        split_on_ascii_whitespace x (CHR '' '' # join (y # ys) '' '')"
    using split_ws_token [OF x(2), of "[]"] by simp
  also have "\<dots> = x # split_on_ascii_whitespace [] (join (y # ys) '' '')"
    using x(1) by (rule split_ws_space)
  also have "\<dots> = x # y # ys"
    using 3 rest by simp
  finally show ?case by simp
qed

lemma split_ws_tokens:
  "\<not> list_ex ascii_whitespace token \<Longrightarrow>
   list_all class_token (split_on_ascii_whitespace token s)"
  by (induction s arbitrary: token) (auto simp add: class_token_def)

lemma set_ordered_set:
  "set (foldl ordered_set_append acc ts) = set acc \<union> set ts"
  by (induction ts arbitrary: acc) (auto simp add: ordered_set_append_def)

lemma parser_tokens: "list_all class_token (ordered_set_parser s)"
proof -
  have "list_all class_token (split_on_ascii_whitespace [] s)"
    by (rule split_ws_tokens) simp
  then show ?thesis
    by (simp add: ordered_set_parser_def list_all_iff set_ordered_set)
qed

lemma set_parser_serializer:
  "list_all class_token ts \<Longrightarrow> set (ordered_set_parser (ordered_set_serializer ts)) = set ts"
  by (simp add: ordered_set_parser_def ordered_set_serializer_def split_ws_join set_ordered_set)

text \<open>
  With a token it accepts, \<open>toggle\<close> does not throw, and the token is in the class
  attribute afterwards exactly when \<open>force\<close> is true.
\<close>

lemma toggle_class_token:
  assumes "class_token token"
  shows "\<exists>c. toggle classAttribute token force = Inr c \<and>
             (token \<in> set (ordered_set_parser c) \<longleftrightarrow> force)"
proof -
  let ?ts = "ordered_set_parser classAttribute"
  have ts: "list_all class_token ?ts"
    by (rule parser_tokens)
  then have rm: "list_all class_token (removeAll token ?ts)"
    by (simp add: list_all_iff)
  from ts assms have ap: "list_all class_token (?ts @ [token])"
    by simp
  show ?thesis
    using assms set_parser_serializer [OF rm] set_parser_serializer [OF ap]
    by (auto simp add: toggle_def class_token_def Let_def)
qed

lemma toggle_throws:
  "\<not> class_token token \<Longrightarrow> \<exists>exception. toggle classAttribute token force = Inl exception"
  by (auto simp add: toggle_def class_token_def)

section \<open>The control: validation errors\<close>

lemma runtimeUpdated_VALIDATION_ERROR:
  "runtimeUpdated stylingRegistry VALIDATION_ERROR this =
    (case toggle (className (self this)) (getStyles stylingRegistry ''validation.error'')
            (validationErrors (runtime (uischema this)) \<noteq> Undefined) of
       Inl exception \<Rightarrow>
         (Some exception,
          this\<lparr>errorElement := (errorElement this)
            \<lparr>textContent := formatErrorMessage (validationErrors (runtime (uischema this)))\<rparr>\<rparr>)
     | Inr classAttribute \<Rightarrow>
         (None,
          this\<lparr>errorElement := (errorElement this)
            \<lparr>textContent := formatErrorMessage (validationErrors (runtime (uischema this)))\<rparr>,
               self := (self this)\<lparr>className := classAttribute\<rparr>\<rparr>))"
  by (simp add: runtimeUpdated_def Let_def split: sum.splits)

lemma runtimeUpdated_class_token:
  assumes "class_token (getStyles stylingRegistry ''validation.error'')"
  shows "fst (runtimeUpdated stylingRegistry VALIDATION_ERROR this) = None"
    and "textContent (errorElement (snd (runtimeUpdated stylingRegistry VALIDATION_ERROR this))) =
           formatErrorMessage (validationErrors (runtime (uischema this)))"
    and "has_class (self (snd (runtimeUpdated stylingRegistry VALIDATION_ERROR this)))
           (getStyles stylingRegistry ''validation.error'') \<longleftrightarrow>
           validationErrors (runtime (uischema this)) \<noteq> Undefined"
proof -
  obtain c where c: "toggle (className (self this)) (getStyles stylingRegistry ''validation.error'')
            (validationErrors (runtime (uischema this)) \<noteq> Undefined) = Inr c"
    and m: "getStyles stylingRegistry ''validation.error'' \<in> set (ordered_set_parser c) \<longleftrightarrow>
            validationErrors (runtime (uischema this)) \<noteq> Undefined"
    using toggle_class_token [OF assms] by blast
  show "fst (runtimeUpdated stylingRegistry VALIDATION_ERROR this) = None"
    by (simp add: runtimeUpdated_VALIDATION_ERROR c)
  show "textContent (errorElement (snd (runtimeUpdated stylingRegistry VALIDATION_ERROR this))) =
           formatErrorMessage (validationErrors (runtime (uischema this)))"
    by (simp add: runtimeUpdated_VALIDATION_ERROR c)
  show "has_class (self (snd (runtimeUpdated stylingRegistry VALIDATION_ERROR this)))
           (getStyles stylingRegistry ''validation.error'') \<longleftrightarrow>
           validationErrors (runtime (uischema this)) \<noteq> Undefined"
    using m by (simp add: runtimeUpdated_VALIDATION_ERROR c has_class_def)
qed

text \<open>
  Without a token that \<open>toggle\<close> accepts, \<open>runtimeUpdated\<close> ends with the exception of
  \<open>toggle\<close> on every \<open>VALIDATION_ERROR\<close>: the error text is written, the class attribute
  of the control is not.
\<close>

lemma runtimeUpdated_throws:
  assumes "\<not> class_token (getStyles stylingRegistry ''validation.error'')"
  shows "fst (runtimeUpdated stylingRegistry VALIDATION_ERROR this) \<noteq> None"
    and "self (snd (runtimeUpdated stylingRegistry VALIDATION_ERROR this)) = self this"
proof -
  obtain exception where
    "toggle (className (self this)) (getStyles stylingRegistry ''validation.error'')
            (validationErrors (runtime (uischema this)) \<noteq> Undefined) = Inl exception"
    using toggle_throws [OF assms] by blast
  then show "fst (runtimeUpdated stylingRegistry VALIDATION_ERROR this) \<noteq> None"
    and "self (snd (runtimeUpdated stylingRegistry VALIDATION_ERROR this)) = self this"
    by (simp_all add: runtimeUpdated_VALIDATION_ERROR)
qed

text \<open>
  For comparison, the other places where the source uses a style take any number of
  class names, or none: \<open>render\<close> assigns \<open>getAsClassName('control')\<close> to \<open>className\<close>,
  and \<open>applyStyles\<close> joins the registered names into the class attribute and returns
  early when there are none. Only \<open>runtimeUpdated\<close> hands the joined string to
  \<open>classList.toggle\<close>, which takes one token.
\<close>

text \<open>
  Claim C3 says, for every control whose \<open>validationErrors\<close> are \<open>['required']\<close>, that a
  \<open>VALIDATION_ERROR\<close> event sets the error text to \<open>required\<close> and adds the error style
  class. The code does not do so when the style \<open>validation.error\<close> has two class
  names, nor when it is not registered. With \<open>['has-error', 'red']\<close> registered,
  \<open>getStyles\<close> gives \<open>has-error red\<close>: the error text is written, then \<open>toggle\<close> throws
  an \<open>InvalidCharacterError\<close>, and the class attribute of the control stays
  \<open>control\<close>, with neither class of the style on it. With the empty registry
  \<open>getStyles\<close> gives the empty string and \<open>toggle\<close> throws a \<open>SyntaxError\<close>.
\<close>

theorem validation_error_required_throws:
  "fst (runtimeUpdated [\<lparr>name = ''validation.error'', classNames = [''has-error'', ''red'']\<rparr>]
          VALIDATION_ERROR (example_control (Value [''required''])))
     = Some InvalidCharacterError \<and>
   textContent (errorElement (snd (runtimeUpdated
          [\<lparr>name = ''validation.error'', classNames = [''has-error'', ''red'']\<rparr>]
          VALIDATION_ERROR (example_control (Value [''required''])))))
     = ''required'' \<and>
   className (self (snd (runtimeUpdated
          [\<lparr>name = ''validation.error'', classNames = [''has-error'', ''red'']\<rparr>]
          VALIDATION_ERROR (example_control (Value [''required''])))))
     = ''control'' \<and>
   \<not> has_class (self (snd (runtimeUpdated
          [\<lparr>name = ''validation.error'', classNames = [''has-error'', ''red'']\<rparr>]
          VALIDATION_ERROR (example_control (Value [''required''])))))
        ''has-error'' \<and>
   \<not> has_class (self (snd (runtimeUpdated
          [\<lparr>name = ''validation.error'', classNames = [''has-error'', ''red'']\<rparr>]
          VALIDATION_ERROR (example_control (Value [''required''])))))
        ''red'' \<and>
   fst (runtimeUpdated [] VALIDATION_ERROR (example_control (Value [''required''])))
     = Some SyntaxError \<and>
   className (self (snd (runtimeUpdated [] VALIDATION_ERROR
          (example_control (Value [''required''])))))
     = ''control''"
  by (simp add: runtimeUpdated_VALIDATION_ERROR toggle_def getStyles_def getAsClassName_def get_def
      isEmpty_def example_control_def createElement_def ascii_whitespace_def has_class_def
      ordered_set_parser_def ordered_set_append_def formatErrorMessage_def)

text \<open>
  Claim C9 says that on a \<open>VALIDATION_ERROR\<close> event the error style class is on the
  control exactly when \<open>validationErrors\<close> is not \<open>undefined\<close>, so that it is added for
  an empty list and for \<open>null\<close>. The code does not add it when the style has two class
  names, nor when it is not registered. With \<open>['has-error', 'red']\<close> registered and an
  empty list of errors, \<open>toggle\<close> is called with \<open>has-error red\<close> and \<open>true\<close> and throws
  an \<open>InvalidCharacterError\<close>; with the empty registry and \<open>null\<close> it is called with
  the empty string and \<open>true\<close> and throws a \<open>SyntaxError\<close>. In both the error text is
  the empty string and the class attribute of the control stays \<open>control\<close>.
\<close>

theorem error_class_not_added:
  "fst (runtimeUpdated [\<lparr>name = ''validation.error'', classNames = [''has-error'', ''red'']\<rparr>]
          VALIDATION_ERROR (example_control (Value [])))
     = Some InvalidCharacterError \<and>
   textContent (errorElement (snd (runtimeUpdated
          [\<lparr>name = ''validation.error'', classNames = [''has-error'', ''red'']\<rparr>]
          VALIDATION_ERROR (example_control (Value [])))))
     = [] \<and>
   className (self (snd (runtimeUpdated
          [\<lparr>name = ''validation.error'', classNames = [''has-error'', ''red'']\<rparr>]
          VALIDATION_ERROR (example_control (Value [])))))
     = ''control'' \<and>
   fst (runtimeUpdated [] VALIDATION_ERROR (example_control Null)) = Some SyntaxError \<and>
   textContent (errorElement (snd (runtimeUpdated [] VALIDATION_ERROR (example_control Null))))
     = [] \<and>
   className (self (snd (runtimeUpdated [] VALIDATION_ERROR (example_control Null)))) = ''control''"
  by (simp add: runtimeUpdated_VALIDATION_ERROR toggle_def getStyles_def getAsClassName_def get_def
      isEmpty_def example_control_def createElement_def ascii_whitespace_def
      formatErrorMessage_def)

section \<open>The control: notifications and user edits\<close>

text \<open>
  Claim C4. \<open>needsNotificationAbout(E)\<close> is true exactly when \<open>E\<close> is an element (neither
  \<open>null\<close> nor \<open>undefined\<close>) whose \<open>scope.$ref\<close> equals the \<open>scope.$ref\<close> of the control's
  own element; for \<open>null\<close> and for \<open>undefined\<close> it is false.
\<close>

theorem needsNotificationAbout_iff:
  "(needsNotificationAbout this E \<longleftrightarrow>
      (\<exists>element. E = Value element \<and> ref (scope element) = ref (scope (uischema this)))) \<and>
   \<not> needsNotificationAbout this Null \<and>
   \<not> needsNotificationAbout this Undefined"
  by (cases E) (auto simp add: needsNotificationAbout_def)

theorem needsNotificationAbout_iff_witness:
  "needsNotificationAbout (example_control Undefined)
     (Value \<lparr>scope = \<lparr>ref = ''/firstName''\<rparr>,
             runtime = \<lparr>visible = False, enabled = False, validationErrors = Null\<rparr>\<rparr>) \<and>
   \<not> needsNotificationAbout (example_control Undefined)
     (Value \<lparr>scope = \<lparr>ref = ''/lastName''\<rparr>,
             runtime = \<lparr>visible = True, enabled = True, validationErrors = Undefined\<rparr>\<rparr>) \<and>
   \<not> needsNotificationAbout (example_control Undefined) Null"
  using needsNotificationAbout_iff [of "example_control Undefined"
      "Value \<lparr>scope = \<lparr>ref = ''/firstName''\<rparr>,
             runtime = \<lparr>visible = False, enabled = False, validationErrors = Null\<rparr>\<rparr>"]
    needsNotificationAbout_iff [of "example_control Undefined"
      "Value \<lparr>scope = \<lparr>ref = ''/lastName''\<rparr>,
             runtime = \<lparr>visible = True, enabled = True, validationErrors = Undefined\<rparr>\<rparr>"]
  by (simp add: example_control_def)

text \<open>
  What \<open>createInput\<close> leaves under the change property of the widget. The arrow
  function is written first and the value property is written after it. The function is
  there afterwards when the widget holds a function written to its change property and
  the value property is another property; a control that names one property for both
  has what the value property holds there.
\<close>

lemma createInput_handler:
  assumes "inputChangeProperty sub \<noteq> valueProperty sub"
    and "setter (configureInput sub (createInputElement sub)) (inputChangeProperty sub)
           (JFunction (ForwardChange controlElement)) = JFunction (ForwardChange controlElement)"
  shows "get_property (input (createInput sub stylingRegistry dataService this controlElement))
           (inputChangeProperty sub) = JFunction (ForwardChange controlElement)"
  using assms
  by (simp add: createInput_def Let_def setValue_def set_property_def get_property_def)

lemma createInput_handler_overwritten:
  assumes "inputChangeProperty sub = valueProperty sub"
  shows "get_property (input (createInput sub stylingRegistry dataService this controlElement))
           (inputChangeProperty sub) =
         setter (configureInput sub (createInputElement sub)) (valueProperty sub)
           (convertModelValue sub (DataService_getValue dataService controlElement))"
  using assms
  by (simp add: createInput_def Let_def setValue_def set_property_def get_property_def)

text \<open>
  Claim C6 says, for every rendered control, that triggering the change handler of the
  input widget once makes exactly one call of \<open>notifyAboutDataChange\<close>. The abstract
  members \<open>inputChangeProperty\<close> and \<open>valueProperty\<close> are any two strings. For the control
  that gives \<open>value\<close> for both, \<open>createInput\<close> writes the data service's value over the
  handler: after rendering, the widget holds \<open>Ann\<close> under \<open>value\<close>, triggering what is
  under the change property is a \<open>TypeError\<close>, and the data service gets no call. For
  the control that gives \<open>title\<close> as the change property, the widget holds the text of
  the function, not the function, and triggering is a \<open>TypeError\<close> as well.
\<close>

theorem change_notifies_once_counterexample:
  "get_property (input (createInput same_property_control [] example_service
       (example_control Undefined) (uischema (example_control Undefined)))) ''value''
     = JStr ''Ann'' \<and>
   trigger_change same_property_control
     (createInput same_property_control [] example_service
        (example_control Undefined) (uischema (example_control Undefined)))
     example_service
     = Inl TypeError \<and>
   trigger_change title_control
     (createInput title_control [] example_service
        (example_control Undefined) (uischema (example_control Undefined)))
     example_service
     = Inl TypeError"
  by (simp add: trigger_change_def createInput_def Let_def setValue_def set_property_def
      get_property_def same_property_control_def title_control_def text_control_def
      text_input_def createElement_def DataService_getValue_def example_service_def ToString_def)

text \<open>
  Claim C6, amended. Take a control whose change property and value property are two
  different properties and whose input widget holds a function that is written to its
  change property, and let its input be made by \<open>createInput\<close> for the control's own
  element, as \<open>render\<close> calls it. Whatever the widget holds when the handler is
  triggered (\<open>edited\<close> is the control then: its widget still has under the change
  property what \<open>createInput\<close> left there), and whatever the data service has been told
  before, triggering the handler once does not fail and adds exactly one call of
  \<open>notifyAboutDataChange\<close> to the calls made so far, with the control's element and
  \<open>convertInputValue\<close> of what the widget then holds under the value property as its
  arguments.
\<close>

theorem change_notifies_once:
  assumes "inputChangeProperty sub \<noteq> valueProperty sub"
    and "setter (configureInput sub (createInputElement sub)) (inputChangeProperty sub)
           (JFunction (ForwardChange (uischema this))) = JFunction (ForwardChange (uischema this))"
    and "get_property (input edited) (inputChangeProperty sub) =
         get_property (input (createInput sub stylingRegistry dataService this (uischema this)))
           (inputChangeProperty sub)"
  shows "trigger_change sub edited service =
           Inr (service\<lparr>notified := notified service @
                  [(uischema this,
                    convertInputValue sub (get_property (input edited) (valueProperty sub)))]\<rparr>)"
  using assms(3)
    createInput_handler [OF assms(1) assms(2), of stylingRegistry dataService this]
  by (simp add: trigger_change_def notifyAboutDataChange_def getValue_def)

text \<open>
  The text control is rendered with \<open>Ann\<close> in the data service, the user types \<open>Bob\<close>,
  and the handler is triggered: the data service gets the one call with \<open>Bob\<close>.
\<close>

theorem change_notifies_once_witness:
  "inputChangeProperty text_control \<noteq> valueProperty text_control \<and>
   setter (configureInput text_control (createInputElement text_control))
     (inputChangeProperty text_control)
     (JFunction (ForwardChange (uischema (example_control Undefined))))
     = JFunction (ForwardChange (uischema (example_control Undefined))) \<and>
   get_property (input (createInput text_control [] example_service (example_control Undefined)
                   (uischema (example_control Undefined)))) ''value'' = JStr ''Ann'' \<and>
   trigger_change text_control
     ((createInput text_control [] example_service (example_control Undefined)
         (uischema (example_control Undefined)))
        \<lparr>input := set_property
           (input (createInput text_control [] example_service (example_control Undefined)
              (uischema (example_control Undefined))))
           ''value'' (JStr ''Bob'')\<rparr>)
     example_service =
   Inr (example_service\<lparr>notified := [(uischema (example_control Undefined), JStr ''Bob'')]\<rparr>)"
proof -
  let ?rendered = "createInput text_control [] example_service (example_control Undefined)
                     (uischema (example_control Undefined))"
  let ?edited = "?rendered\<lparr>input := set_property (input ?rendered) ''value'' (JStr ''Bob'')\<rparr>"
  have d: "inputChangeProperty text_control \<noteq> valueProperty text_control"
    by (simp add: text_control_def)
  have k: "setter (configureInput text_control (createInputElement text_control))
     (inputChangeProperty text_control)
     (JFunction (ForwardChange (uischema (example_control Undefined))))
     = JFunction (ForwardChange (uischema (example_control Undefined)))"
    by (simp add: text_control_def text_input_def)
  have h: "get_property (input ?edited) (inputChangeProperty text_control) =
           get_property (input ?rendered) (inputChangeProperty text_control)"
    by (simp add: text_control_def get_property_def set_property_def split: option.splits)
  have v: "get_property (input ?rendered) ''value'' = JStr ''Ann''"
    by (simp add: createInput_def Let_def setValue_def set_property_def get_property_def
        text_control_def text_input_def DataService_getValue_def example_service_def ToString_def)
  have s: "setter (input ?rendered) ''value'' (JStr ''Bob'') = JStr ''Bob''"
    by (simp add: createInput_def Let_def setValue_def set_property_def
        text_control_def text_input_def ToString_def)
  have e: "convertInputValue text_control (get_property (input ?edited) (valueProperty text_control)) =
           JStr ''Bob''"
    using s by (simp add: text_control_def get_property_def set_property_def)
  have n: "notified example_service = []"
    by (simp add: example_service_def)
  show ?thesis
    using d k v change_notifies_once [OF d k h, of example_service]
    by (simp only: e n append_Nil simp_thms)
qed

end
